theory Spec2Isabelle
  imports Main "HOL-Library.List_Lexorder" "HOL-Library.Char_ord"
begin

section \<open>Data model\<close>

text \<open>
  The tables of the application, as declared in \<^verbatim>\<open>serials/models.py\<close>,
  \<^verbatim>\<open>operations/models.py\<close>, \<^verbatim>\<open>defects/models.py\<close> and
  \<^verbatim>\<open>operators/models.py\<close>. A row is a record, a table is the list of its rows, a
  foreign key is the primary key of the row it points to. Only the columns that the modelled
  functions read or write are kept; \<^verbatim>\<open>created_at\<close> and \<^verbatim>\<open>updated_at\<close> are left out.
  Strings are lists of 8-bit characters, timestamps are natural numbers.
\<close>

type_synonym user_id = nat
type_synonym timestamp = nat

datatype record_status = PENDING | IN_PROGRESS | APPROVED | REJECTED

datatype serial_status = CREATED | IN_PROCESS | COMPLETED | SN_REJECTED | DEFECTIVE | SCRAPPED

datatype defect_status = OPEN | IN_REPAIR | REPAIRED | D_SCRAPPED

datatype role = OPERATOR | SUPERVISOR | QUALITY | ADMIN | REPAIRER

record operation =
  op_id :: nat
  sequence_number :: nat
  is_active :: bool

record process_record =
  pr_id :: nat
  pr_serial_number :: nat
  pr_operation :: nat
  pr_status :: record_status
  processed_by :: "user_id option"
  assigned_operator :: "user_id option"
  started_at :: "timestamp option"
  completed_at :: "timestamp option"
  assigned_at :: "timestamp option"
  pr_notes :: string
  quality_check_passed :: bool
  rejection_reason :: string
  pr_defect_type :: string

record serial_number =
  sn_id :: nat
  sn_serial_number :: string
  order_number :: string
  authorized_part :: nat
  sn_status :: serial_status
  sn_completed_at :: "timestamp option"
  created_by :: user_id

record defect =
  d_id :: nat
  d_serial_number :: nat
  d_operation :: nat
  d_defect_type :: string
  description :: string
  d_status :: defect_status
  reported_by :: user_id
  assigned_repairer :: "user_id option"
  resolved_by :: "user_id option"
  repair_notes :: string
  return_to_operation :: "nat option"
  resolved_at :: "timestamp option"

record authorized_part_row =
  ap_id :: nat
  part_number :: string
  ap_is_active :: bool

text \<open>
  A user is present in \<open>users\<close> with \<open>Some role\<close> when it has a \<^verbatim>\<open>userprofile\<close> and with
  \<open>None\<close> when it has none.
\<close>

record db =
  operations :: "operation list"
  process_records :: "process_record list"
  serial_numbers :: "serial_number list"
  defects :: "defect list"
  authorized_parts :: "authorized_part_row list"
  users :: "(user_id \<times> role option) list"

section \<open>Exceptions\<close>

text \<open>
  Every \<^verbatim>\<open>raise\<close> of the modelled code is a value. The two exception classes that carry a
  message, \<^verbatim>\<open>ValueError\<close> and \<^verbatim>\<open>ValidationError\<close>, get one tag for each message in the
  source.
\<close>

datatype value_error =
    YearNotSupported
  | YearOutOfRange
  | MonthInvalid
  | PartNotFound
  | SerialLimitReached

datatype validation_error =
    PreviousOperationsIncomplete
  | AlreadyStarted
  | CannotApprove
  | CannotRejectApproved
  | InvalidAction

datatype error =
    ValueError value_error
  | ValidationError validation_error
  | ReError
  | IntegrityError
  | DoesNotExist
  | MultipleObjectsReturned
  | Http404
  | PermissionDenied

section \<open>Query helpers\<close>

text \<open>\<^verbatim>\<open>objects.get(...)\<close>: exactly one row, or one of two exceptions.\<close>

definition orm_get :: "'a list \<Rightarrow> ('a \<Rightarrow> bool) \<Rightarrow> error + 'a" where
  "orm_get rows p =
     (case filter p rows of
        [] \<Rightarrow> Inl DoesNotExist
      | [x] \<Rightarrow> Inr x
      | _ \<Rightarrow> Inl MultipleObjectsReturned)"

text \<open>\<^verbatim>\<open>get_object_or_404\<close> turns \<^verbatim>\<open>DoesNotExist\<close> into \<^verbatim>\<open>Http404\<close>.\<close>

definition get_object_or_404 :: "'a list \<Rightarrow> ('a \<Rightarrow> bool) \<Rightarrow> error + 'a" where
  "get_object_or_404 rows p =
     (case orm_get rows p of
        Inl DoesNotExist \<Rightarrow> Inl Http404
      | r \<Rightarrow> r)"

text \<open>\<^verbatim>\<open>.first()\<close> of a query set in table order.\<close>

definition orm_first :: "'a list \<Rightarrow> ('a \<Rightarrow> bool) \<Rightarrow> 'a option" where
  "orm_first rows p = (case filter p rows of [] \<Rightarrow> None | x # _ \<Rightarrow> Some x)"

text \<open>A fresh primary key: one more than the greatest key in the table.\<close>

definition new_id :: "nat list \<Rightarrow> nat" where
  "new_id ids = Suc (fold max ids 0)"

text \<open>
  \<^verbatim>\<open>with transaction.atomic()\<close> and \<^verbatim>\<open>@transaction.atomic\<close>: a block that leaves by an
  exception leaves the database as it found it.
\<close>

definition atomic :: "(db \<Rightarrow> (error + 'a) \<times> db) \<Rightarrow> db \<Rightarrow> (error + 'a) \<times> db" where
  "atomic block st =
     (case block st of
        (Inl e, _) \<Rightarrow> (Inl e, st)
      | (Inr v, st') \<Rightarrow> (Inr v, st'))"

section \<open>Strings: decimal fields, ordering, the serial number patterns\<close>

definition isdigit :: "char \<Rightarrow> bool" where
  "isdigit c \<longleftrightarrow> 48 \<le> (of_char c :: nat) \<and> (of_char c :: nat) \<le> 57"

definition digit_char :: "nat \<Rightarrow> char" where
  "digit_char d = char_of (48 + d)"

definition digit_val :: "char \<Rightarrow> nat" where
  "digit_val c = of_char c - 48"

text \<open>\<^verbatim>\<open>int(s)\<close> on a string of decimal digits.\<close>

definition int_of_digits :: "string \<Rightarrow> nat" where
  "int_of_digits s = fold (\<lambda>c acc. 10 * acc + digit_val c) s 0"

text \<open>The decimal digits of a number, and \<^verbatim>\<open>f"{n:03d}"\<close>: at least three digits, zero padded.\<close>

fun dec :: "nat \<Rightarrow> string" where
  "dec n = (if n < 10 then [digit_char n] else dec (n div 10) @ [digit_char (n mod 10)])"

declare dec.simps [simp del]

definition fmt03 :: "nat \<Rightarrow> string" where
  "fmt03 n = replicate (3 - length (dec n)) (CHR ''0'') @ dec n"

definition startswith :: "string \<Rightarrow> string \<Rightarrow> bool" where
  "startswith s p \<longleftrightarrow> take (length p) s = p"

text \<open>
  \<^verbatim>\<open>order_by('-serial_number').first()\<close>: the row whose key is greatest in the byte-wise
  lexicographic order of strings; among equal keys the earliest row.
\<close>

fun greatest_by :: "('a \<Rightarrow> string) \<Rightarrow> 'a list \<Rightarrow> 'a option" where
  "greatest_by k [] = None"
| "greatest_by k (x # xs) =
     (case greatest_by k xs of
        None \<Rightarrow> Some x
      | Some y \<Rightarrow> if k x < k y then Some y else Some x)"

text \<open>
  The tail \<^verbatim>\<open>(\d{3})-(\d{3})M\<close> of the serial number patterns, matched at the start of a
  string; nothing is required of what follows. The result is the two groups.
\<close>

definition match_counters :: "string \<Rightarrow> (string \<times> string) option" where
  "match_counters t =
     (if 8 \<le> length t \<and> list_all isdigit (take 3 t) \<and> t ! 3 = CHR ''-''
         \<and> list_all isdigit (take 3 (drop 4 t)) \<and> t ! 7 = CHR ''M''
      then Some (take 3 t, take 3 (drop 4 t))
      else None)"

text \<open>
  \<^verbatim>\<open>re.match(f'{prefix}(\\d{{3}})-(\\d{{3}})M', s)\<close> where \<^verbatim>\<open>prefix\<close> is the year letter
  followed by the month letter. The prefix is pasted into the pattern unescaped, so a year
  letter that is a regular-expression metacharacter changes the pattern:
  \<^item> \<^verbatim>\<open>[\<close> opens a character set that holds the range \<^verbatim>\<open>)-(\<close>: the pattern does not
    compile (\<^verbatim>\<open>re.error\<close>);
  \<^item> a backslash makes an escape of the month letter: \<^verbatim>\<open>\A\<close> is the start of the string,
    \<^verbatim>\<open>\B\<close> is a non-boundary (which cannot hold before a digit at the start), \<^verbatim>\<open>\D\<close> is
    one non-digit, and the escapes \<^verbatim>\<open>\C\<close>, \<^verbatim>\<open>\E\<close> ... \<^verbatim>\<open>\L\<close> do not compile;
  \<^item> \<^verbatim>\<open>^\<close> is the start of the string, followed by the month letter.
  Every other year letter that the allocator can produce stands for itself.
\<close>

definition re_match_prefixed :: "char \<Rightarrow> char \<Rightarrow> string \<Rightarrow> error + (string \<times> string) option" where
  "re_match_prefixed year_letter month_letter s =
     (if year_letter = CHR ''['' then Inl ReError
      else if year_letter = CHR 0x5C then
        (if month_letter = CHR ''A'' then Inr (match_counters s)
         else if month_letter = CHR ''B'' then Inr None
         else if month_letter = CHR ''D'' then
           (case s of
              [] \<Rightarrow> Inr None
            | c # t \<Rightarrow> if isdigit c then Inr None else Inr (match_counters t))
         else Inl ReError)
      else if year_letter = CHR ''^'' then
        (case s of
           [] \<Rightarrow> Inr None
         | c # t \<Rightarrow> if c = month_letter then Inr (match_counters t) else Inr None)
      else
        (if startswith s [year_letter, month_letter] then Inr (match_counters (drop 2 s))
         else Inr None))"

section \<open>What a request sees of its environment\<close>

text \<open>
  \<^item> \<open>signals_connected\<close>: whether the receivers of \<^verbatim>\<open>manufacturing/signals.py\<close> are
    registered. The module registers them when it is imported, and the import (the
    application configuration) is not among the sources, so both cases are kept.
  \<^item> \<open>now\<close>: the value of \<^verbatim>\<open>timezone.now()\<close> during the request.
  \<^item> \<open>today_year\<close>, \<open>today_month\<close>: \<^verbatim>\<open>datetime.now().year\<close> and \<^verbatim>\<open>.month\<close>.
  \<^item> \<open>notification_error\<close>: the exception that the channel layer raises when a
    notification is sent, if it raises one.
\<close>

record env =
  signals_connected :: bool
  now :: timestamp
  today_year :: int
  today_month :: int
  notification_error :: "error option"

section \<open>Saving rows, and the receivers of \<^verbatim>\<open>manufacturing/signals.py\<close>\<close>

text \<open>
  \<^verbatim>\<open>serial.save()\<close> on an object that was loaded from the table: the row with its primary
  key is overwritten with all fields of the object. The receiver \<^verbatim>\<open>create_process_records\<close>
  does nothing on such a save (\<^verbatim>\<open>created\<close> is false).
\<close>

definition sn_save :: "serial_number \<Rightarrow> db \<Rightarrow> db" where
  "sn_save s st =
     st\<lparr>serial_numbers := map (\<lambda>x. if sn_id x = sn_id s then s else x) (serial_numbers st)\<rparr>"

text \<open>
  \<^verbatim>\<open>update_process_timestamps\<close> (\<^verbatim>\<open>pre_save\<close> of a process record that has a primary
  key): compares with the stored row.
\<close>

definition update_process_timestamps :: "env \<Rightarrow> process_record \<Rightarrow> db \<Rightarrow> error + process_record" where
  "update_process_timestamps ev instance st =
     (case orm_get (process_records st) (\<lambda>r. pr_id r = pr_id instance) of
        Inl DoesNotExist \<Rightarrow> Inr instance
      | Inl e \<Rightarrow> Inl e
      | Inr old_instance \<Rightarrow>
          (let i1 = (if pr_status old_instance \<noteq> IN_PROGRESS \<and> pr_status instance = IN_PROGRESS
                        \<and> started_at instance = None
                     then instance\<lparr>started_at := Some (now ev)\<rparr> else instance);
               i2 = (if pr_status old_instance \<noteq> APPROVED \<and> pr_status i1 = APPROVED
                        \<and> completed_at i1 = None
                     then i1\<lparr>completed_at := Some (now ev)\<rparr> else i1)
           in Inr i2))"

text \<open>
  \<^verbatim>\<open>update_serial_status\<close> (\<^verbatim>\<open>post_save\<close> of a process record), applied to the object
  \<^verbatim>\<open>instance.serial_number\<close>. It returns the object as it has changed it, and the database
  after \<^verbatim>\<open>serial.save()\<close>.
\<close>

definition signals_update_serial_status :: "env \<Rightarrow> serial_number \<Rightarrow> db \<Rightarrow> serial_number \<times> db" where
  "signals_update_serial_status ev serial st =
     (let total_operations = length (filter is_active (operations st));
          approved_operations =
            length (filter (\<lambda>r. pr_serial_number r = sn_id serial \<and> pr_status r = APPROVED)
                      (process_records st));
          serial' =
            (if approved_operations = total_operations
             then serial\<lparr>sn_status := COMPLETED, sn_completed_at := Some (now ev)\<rparr>
             else if approved_operations > 0 then serial\<lparr>sn_status := IN_PROCESS\<rparr>
             else serial\<lparr>sn_status := CREATED\<rparr>)
      in (serial', sn_save serial' st))"

text \<open>
  The object that \<^verbatim>\<open>instance.serial_number\<close> denotes: the object that the caller attached to
  the record (\<open>Some\<close>), or else a fresh copy of the row, loaded on first access.
\<close>

definition related_serial :: "serial_number option \<Rightarrow> process_record \<Rightarrow> db \<Rightarrow> error + serial_number" where
  "related_serial cached instance st =
     (case cached of
        Some s \<Rightarrow> Inr s
      | None \<Rightarrow> orm_get (serial_numbers st) (\<lambda>s. sn_id s = pr_serial_number instance))"

definition post_save_process_record ::
  "env \<Rightarrow> serial_number option \<Rightarrow> process_record \<Rightarrow> db \<Rightarrow> (error + serial_number option) \<times> db" where
  "post_save_process_record ev cached instance st =
     (if signals_connected ev then
        (case related_serial cached instance st of
           Inl e \<Rightarrow> (Inl e, st)
         | Inr serial \<Rightarrow>
             (case signals_update_serial_status ev serial st of
                (serial', st') \<Rightarrow> (Inr (Some serial'), st')))
      else (Inr cached, st))"

text \<open>
  \<^verbatim>\<open>process_record.save()\<close> on a record loaded from the table. The second argument is the
  serial number object attached to the record, if any; the result holds the record and the
  attached object as the receivers leave them.
\<close>

definition pr_save ::
  "env \<Rightarrow> serial_number option \<Rightarrow> process_record \<Rightarrow> db
     \<Rightarrow> (error + process_record \<times> serial_number option) \<times> db" where
  "pr_save ev cached instance st =
     (case (if signals_connected ev then update_process_timestamps ev instance st else Inr instance) of
        Inl e \<Rightarrow> (Inl e, st)
      | Inr instance' \<Rightarrow>
          (let st1 = st\<lparr>process_records :=
                        map (\<lambda>r. if pr_id r = pr_id instance' then instance' else r) (process_records st)\<rparr>
           in case post_save_process_record ev cached instance' st1 of
                (Inl e, st2) \<Rightarrow> (Inl e, st2)
              | (Inr cached', st2) \<Rightarrow> (Inr (instance', cached'), st2)))"

text \<open>
  \<^verbatim>\<open>ProcessRecord.objects.create(serial_number=serial, ...)\<close>: the pair of serial number
  and operation is unique (\<^verbatim>\<open>unique_together\<close>); the new row gets a fresh key; the object
  \<open>serial\<close> stays attached to the new record, so the receiver works on it.
\<close>

definition pr_create ::
  "env \<Rightarrow> serial_number \<Rightarrow> process_record \<Rightarrow> db \<Rightarrow> (error + process_record \<times> serial_number) \<times> db" where
  "pr_create ev serial row st =
     (if \<exists>r \<in> set (process_records st).
            pr_serial_number r = pr_serial_number row \<and> pr_operation r = pr_operation row
      then (Inl IntegrityError, st)
      else
        (let instance = row\<lparr>pr_id := new_id (map pr_id (process_records st))\<rparr>;
             st1 = st\<lparr>process_records := process_records st @ [instance]\<rparr>
         in case post_save_process_record ev (Some serial) instance st1 of
              (Inl e, st2) \<Rightarrow> (Inl e, st2)
            | (Inr cached', st2) \<Rightarrow>
                (Inr (instance, (case cached' of Some s \<Rightarrow> s | None \<Rightarrow> serial)), st2)))"

text \<open>The column defaults of a new process record.\<close>

definition new_process_record :: "nat \<Rightarrow> nat \<Rightarrow> process_record" where
  "new_process_record serial_pk operation_pk =
     \<lparr>pr_id = 0, pr_serial_number = serial_pk, pr_operation = operation_pk, pr_status = PENDING,
      processed_by = None, assigned_operator = None, started_at = None, completed_at = None,
      assigned_at = None, pr_notes = [], quality_check_passed = False, rejection_reason = [],
      pr_defect_type = []\<rparr>"

text \<open>
  \<^verbatim>\<open>ProcessRecord.objects.get_or_create(serial_number=serial, operation=operation,
  defaults=...)\<close>. The argument \<open>row\<close> is the record that is created when none is found.
  The result holds the record, whether it was created, and the object \<open>serial\<close> as the
  receivers leave it.
\<close>

definition pr_get_or_create ::
  "env \<Rightarrow> serial_number \<Rightarrow> nat \<Rightarrow> process_record \<Rightarrow> db
     \<Rightarrow> (error + process_record \<times> bool \<times> serial_number) \<times> db" where
  "pr_get_or_create ev serial operation_pk row st =
     (case orm_get (process_records st)
             (\<lambda>r. pr_serial_number r = sn_id serial \<and> pr_operation r = operation_pk) of
        Inr r \<Rightarrow> (Inr (r, False, serial), st)
      | Inl DoesNotExist \<Rightarrow>
          (case pr_create ev serial row st of
             (Inl e, st') \<Rightarrow> (Inl e, st')
           | (Inr (r, serial'), st') \<Rightarrow> (Inr (r, True, serial'), st'))
      | Inl e \<Rightarrow> (Inl e, st))"

text \<open>
  \<^verbatim>\<open>create_process_records\<close> (\<^verbatim>\<open>post_save\<close> of a serial number that was created): one
  pending record for each active operation, in the order of the sequence numbers.
\<close>

fun create_process_records_loop ::
  "env \<Rightarrow> operation list \<Rightarrow> serial_number \<Rightarrow> db \<Rightarrow> (error + serial_number) \<times> db" where
  "create_process_records_loop ev [] instance st = (Inr instance, st)"
| "create_process_records_loop ev (operation # rest) instance st =
     (case pr_create ev instance (new_process_record (sn_id instance) (op_id operation)) st of
        (Inl e, st') \<Rightarrow> (Inl e, st')
      | (Inr (r, instance'), st') \<Rightarrow> create_process_records_loop ev rest instance' st')"

definition create_process_records :: "env \<Rightarrow> serial_number \<Rightarrow> db \<Rightarrow> (error + serial_number) \<times> db" where
  "create_process_records ev instance st =
     create_process_records_loop ev
       (sort_key sequence_number (filter is_active (operations st))) instance st"

text \<open>
  \<^verbatim>\<open>SerialNumber.objects.create(...)\<close>: the column \<^verbatim>\<open>serial_number\<close> is unique; the new
  row gets a fresh key; then the receiver runs if it is registered.
\<close>

definition sn_create :: "env \<Rightarrow> serial_number \<Rightarrow> db \<Rightarrow> (error + serial_number) \<times> db" where
  "sn_create ev row st =
     (if \<exists>s \<in> set (serial_numbers st). sn_serial_number s = sn_serial_number row
      then (Inl IntegrityError, st)
      else
        (let instance = row\<lparr>sn_id := new_id (map sn_id (serial_numbers st))\<rparr>;
             st1 = st\<lparr>serial_numbers := serial_numbers st @ [instance]\<rparr>
         in if signals_connected ev then create_process_records ev instance st1
            else (Inr instance, st1)))"

section \<open>The allocator of \<^verbatim>\<open>serials/services.py\<close>\<close>

definition get_year_letter :: "int \<Rightarrow> error + char" where
  "get_year_letter year =
     (let base_year = 2025 in
      if year < base_year then Inl (ValueError YearNotSupported)
      else
        (let year_offset = year - base_year in
         if year_offset > 25 then Inl (ValueError YearOutOfRange)
         else Inr (char_of (of_char (CHR ''K'') + year_offset))))"

definition get_month_letter :: "int \<Rightarrow> error + char" where
  "get_month_letter month =
     (if month < 1 \<or> month > 12 then Inl (ValueError MonthInvalid)
      else Inr (char_of (of_char (CHR ''A'') + month - 1)))"

text \<open>
  The two counters of the next serial number, from the row \<^verbatim>\<open>last_serial\<close> (the greatest
  serial number with the prefix of the current year and month, if there is one).
\<close>

definition next_counters :: "char \<Rightarrow> char \<Rightarrow> serial_number option \<Rightarrow> error + nat \<times> nat" where
  "next_counters year_letter month_letter last_serial =
     (case last_serial of
        None \<Rightarrow> Inr (1, 1)
      | Some ls \<Rightarrow>
          (case re_match_prefixed year_letter month_letter (sn_serial_number ls) of
             Inl e \<Rightarrow> Inl e
           | Inr None \<Rightarrow> Inr (1, 1)
           | Inr (Some (g1, g2)) \<Rightarrow>
               (let first_num = int_of_digits g1; second_num = int_of_digits g2 in
                if second_num < 999 then Inr (first_num, second_num + 1)
                else if first_num + 1 > 999 then Inl (ValueError SerialLimitReached)
                else Inr (first_num + 1, 1))))"

definition generate_serial_number_block ::
  "env \<Rightarrow> string \<Rightarrow> string \<Rightarrow> user_id \<Rightarrow> db \<Rightarrow> (error + serial_number) \<times> db" where
  "generate_serial_number_block ev order_no part_no user st =
     (case orm_get (authorized_parts st) (\<lambda>p. part_number p = part_no \<and> ap_is_active p) of
        Inl DoesNotExist \<Rightarrow> (Inl (ValueError PartNotFound), st)
      | Inl e \<Rightarrow> (Inl e, st)
      | Inr part \<Rightarrow>
          (case get_year_letter (today_year ev) of
             Inl e \<Rightarrow> (Inl e, st)
           | Inr year_letter \<Rightarrow>
               (case get_month_letter (today_month ev) of
                  Inl e \<Rightarrow> (Inl e, st)
                | Inr month_letter \<Rightarrow>
                    (let prefix = [year_letter, month_letter];
                         last_serial =
                           greatest_by sn_serial_number
                             (filter (\<lambda>s. startswith (sn_serial_number s) prefix) (serial_numbers st))
                     in case next_counters year_letter month_letter last_serial of
                          Inl e \<Rightarrow> (Inl e, st)
                        | Inr (first_num, second_num) \<Rightarrow>
                            sn_create ev
                              \<lparr>sn_id = 0,
                               sn_serial_number = prefix @ fmt03 first_num @ ''-'' @ fmt03 second_num @ ''M'',
                               order_number = order_no, authorized_part = ap_id part,
                               sn_status = CREATED, sn_completed_at = None, created_by = user\<rparr>
                              st))))"

definition generate_serial_number ::
  "env \<Rightarrow> string \<Rightarrow> string \<Rightarrow> user_id \<Rightarrow> db \<Rightarrow> (error + serial_number) \<times> db" where
  "generate_serial_number ev order_no part_no user st =
     atomic (generate_serial_number_block ev order_no part_no user) st"

text \<open>
  \<^verbatim>\<open>SerialNumberValidator.validate_serial_format\<close>: \<^verbatim>\<open>re.match\<close> with the pattern
  \<^verbatim>\<open>^[K-Z][A-L]\d{3}-\d{3}M$\<close>. In Python \<^verbatim>\<open>$\<close> also matches just before a newline
  that ends the string.
\<close>

definition fullmatch_serial :: "string \<Rightarrow> bool" where
  "fullmatch_serial s \<longleftrightarrow>
     length s = 10 \<and> CHR ''K'' \<le> s ! 0 \<and> s ! 0 \<le> CHR ''Z'' \<and> CHR ''A'' \<le> s ! 1 \<and> s ! 1 \<le> CHR ''L''
       \<and> match_counters (drop 2 s) \<noteq> None"

definition validate_serial_format :: "string \<Rightarrow> bool" where
  "validate_serial_format s \<longleftrightarrow>
     fullmatch_serial s \<or> (s \<noteq> [] \<and> last s = CHR 0x0A \<and> fullmatch_serial (butlast s))"

record serial_info =
  info_year :: int
  info_month :: int
  first_sequence :: nat
  second_sequence :: nat
  info_year_letter :: char
  info_month_letter :: char

definition decode_serial_info :: "string \<Rightarrow> serial_info option" where
  "decode_serial_info s =
     (if \<not> validate_serial_format s then None
      else
        (let yl = s ! 0; ml = s ! 1;
             y = 2025 + (of_char yl - of_char (CHR ''K''));
             m = of_char ml - of_char (CHR ''A'') + 1;
             (first_seq, second_seq) =
               (case match_counters (drop 2 s) of
                  Some (g1, g2) \<Rightarrow> (int_of_digits g1, int_of_digits g2)
                | None \<Rightarrow> (0, 0))
         in Some \<lparr>info_year = y, info_month = m, first_sequence = first_seq,
                  second_sequence = second_seq, info_year_letter = yl, info_month_letter = ml\<rparr>))"

section \<open>The process service of \<^verbatim>\<open>manufacturing/services.py\<close>\<close>

text \<open>
  \<^verbatim>\<open>_validate_operation_sequence\<close>: the loop over the active operations with a smaller
  sequence number, in the order of \<^verbatim>\<open>Operation.Meta.ordering\<close>. Only \<^verbatim>\<open>DoesNotExist\<close> is
  caught.
\<close>

fun validate_operation_sequence_loop :: "serial_number \<Rightarrow> operation list \<Rightarrow> db \<Rightarrow> error + bool" where
  "validate_operation_sequence_loop serial [] st = Inr True"
| "validate_operation_sequence_loop serial (prev_op # rest) st =
     (case orm_get (process_records st)
             (\<lambda>r. pr_serial_number r = sn_id serial \<and> pr_operation r = op_id prev_op) of
        Inl DoesNotExist \<Rightarrow> Inr False
      | Inl e \<Rightarrow> Inl e
      | Inr prev_record \<Rightarrow>
          if pr_status prev_record \<noteq> APPROVED then Inr False
          else validate_operation_sequence_loop serial rest st)"

definition previous_operations :: "operation \<Rightarrow> db \<Rightarrow> operation list" where
  "previous_operations operation st =
     sort_key sequence_number
       (filter (\<lambda>p. is_active p \<and> sequence_number p < sequence_number operation) (operations st))"

definition validate_operation_sequence :: "serial_number \<Rightarrow> operation \<Rightarrow> db \<Rightarrow> error + bool" where
  "validate_operation_sequence serial operation st =
     validate_operation_sequence_loop serial (previous_operations operation st) st"

text \<open>The three counts of \<^verbatim>\<open>_update_serial_status\<close>.\<close>

definition total_operations :: "db \<Rightarrow> nat" where
  "total_operations st = length (filter is_active (operations st))"

definition approved_operations :: "nat \<Rightarrow> db \<Rightarrow> nat" where
  "approved_operations serial_pk st =
     length (filter (\<lambda>r. pr_serial_number r = serial_pk \<and> pr_status r = APPROVED) (process_records st))"

definition rejected_operations :: "nat \<Rightarrow> db \<Rightarrow> nat" where
  "rejected_operations serial_pk st =
     length (filter (\<lambda>r. pr_serial_number r = serial_pk \<and> pr_status r = REJECTED) (process_records st))"

text \<open>\<^verbatim>\<open>_update_serial_status\<close>: the object as changed, and the database after its save.\<close>

definition service_update_serial_status :: "env \<Rightarrow> serial_number \<Rightarrow> db \<Rightarrow> serial_number \<times> db" where
  "service_update_serial_status ev serial st =
     (let serial' =
            (if rejected_operations (sn_id serial) st > 0 then serial\<lparr>sn_status := SN_REJECTED\<rparr>
             else if approved_operations (sn_id serial) st = total_operations st
             then serial\<lparr>sn_status := COMPLETED, sn_completed_at := Some (now ev)\<rparr>
             else if approved_operations (sn_id serial) st > 0 then serial\<lparr>sn_status := IN_PROCESS\<rparr>
             else serial\<lparr>sn_status := CREATED\<rparr>)
      in (serial', sn_save serial' st))"

text \<open>The chain \<^verbatim>\<open>if action == 'start' ... elif ... else\<close> of \<^verbatim>\<open>process_operation\<close>.\<close>

definition apply_action ::
  "env \<Rightarrow> string \<Rightarrow> user_id \<Rightarrow> bool \<Rightarrow> process_record \<Rightarrow> error + process_record" where
  "apply_action ev action user quality_check process_record =
     (if action = ''start'' then
        (if pr_status process_record \<noteq> PENDING then Inl (ValidationError AlreadyStarted)
         else Inr (process_record\<lparr>pr_status := IN_PROGRESS, started_at := Some (now ev),
                                  processed_by := Some user\<rparr>))
      else if action = ''approve'' then
        (if pr_status process_record \<notin> {IN_PROGRESS, PENDING} then Inl (ValidationError CannotApprove)
         else Inr (process_record\<lparr>pr_status := APPROVED, completed_at := Some (now ev),
                                  processed_by := Some user, quality_check_passed := quality_check\<rparr>))
      else if action = ''reject'' then
        (if pr_status process_record = APPROVED then Inl (ValidationError CannotRejectApproved)
         else Inr (process_record\<lparr>pr_status := REJECTED, completed_at := Some (now ev),
                                  processed_by := Some user\<rparr>))
      else Inl (ValidationError InvalidAction))"

text \<open>
  The body of \<^verbatim>\<open>process_operation\<close>. The object \<open>serial\<close> is attached to the record when
  \<^verbatim>\<open>get_or_create\<close> creates it, and then the receivers change that very object; a record
  that was found loads its own copy.
\<close>

definition process_operation_block ::
  "env \<Rightarrow> serial_number \<Rightarrow> operation \<Rightarrow> string \<Rightarrow> user_id \<Rightarrow> string \<Rightarrow> bool \<Rightarrow> db
     \<Rightarrow> (error + process_record) \<times> db" where
  "process_operation_block ev serial operation action user notes_arg quality_check st =
     (case pr_get_or_create ev serial (op_id operation)
             ((new_process_record (sn_id serial) (op_id operation))\<lparr>pr_notes := notes_arg\<rparr>) st of
        (Inl e, st1) \<Rightarrow> (Inl e, st1)
      | (Inr (process_record, created, serial1), st1) \<Rightarrow>
          (case validate_operation_sequence serial1 operation st1 of
             Inl e \<Rightarrow> (Inl e, st1)
           | Inr False \<Rightarrow> (Inl (ValidationError PreviousOperationsIncomplete), st1)
           | Inr True \<Rightarrow>
               (case apply_action ev action user quality_check process_record of
                  Inl e \<Rightarrow> (Inl e, st1)
                | Inr changed \<Rightarrow>
                    (case pr_save ev (if created then Some serial1 else None)
                            (if notes_arg \<noteq> [] then changed\<lparr>pr_notes := notes_arg\<rparr> else changed) st1 of
                       (Inl e, st2) \<Rightarrow> (Inl e, st2)
                     | (Inr (saved, cached), st2) \<Rightarrow>
                         (case notification_error ev of
                            Some e \<Rightarrow> (Inl e, st2)
                          | None \<Rightarrow>
                              (let serial2 = (if created then (case cached of Some s \<Rightarrow> s | None \<Rightarrow> serial1)
                                              else serial1)
                               in case service_update_serial_status ev serial2 st2 of
                                    (serial3, st3) \<Rightarrow> (Inr saved, st3)))))))"

definition process_operation ::
  "env \<Rightarrow> serial_number \<Rightarrow> operation \<Rightarrow> string \<Rightarrow> user_id \<Rightarrow> string \<Rightarrow> bool \<Rightarrow> db
     \<Rightarrow> (error + process_record) \<times> db" where
  "process_operation ev serial operation action user notes_arg quality_check st =
     atomic (process_operation_block ev serial operation action user notes_arg quality_check) st"

section \<open>The operator views of \<^verbatim>\<open>manufacturing/views_operator.py\<close>\<close>

text \<open>
  A view answers with a JSON object: success, or a failure with one of the messages of the
  source; \<open>Exception\<close> is the answer of the clause \<^verbatim>\<open>except Exception as e\<close>. \<open>Forbidden\<close> is
  the answer of the decorators.
\<close>

datatype failure =
    AlreadyAssigned
  | InvalidOperator
  | OperatorBusy
  | AssignedMeanwhile
  | NoPermission
  | Exception error

datatype response = Success | Failure failure | Forbidden

definition role_of :: "db \<Rightarrow> user_id \<Rightarrow> role option" where
  "role_of st u = (case map_of (users st) u of Some (Some r) \<Rightarrow> Some r | _ \<Rightarrow> None)"

text \<open>The decorators \<^verbatim>\<open>operator_required\<close> and \<^verbatim>\<open>supervisor_or_admin_required\<close>.\<close>

definition operator_required :: "db \<Rightarrow> user_id \<Rightarrow> (role \<Rightarrow> response \<times> db) \<Rightarrow> response \<times> db" where
  "operator_required st user view =
     (case role_of st user of
        None \<Rightarrow> (Forbidden, st)
      | Some r \<Rightarrow> if r \<notin> {OPERATOR, SUPERVISOR, ADMIN} then (Forbidden, st) else view r)"

definition supervisor_or_admin_required :: "db \<Rightarrow> user_id \<Rightarrow> (role \<Rightarrow> response \<times> db) \<Rightarrow> response \<times> db" where
  "supervisor_or_admin_required st user view =
     (case role_of st user of
        None \<Rightarrow> (Forbidden, st)
      | Some r \<Rightarrow> if r \<notin> {SUPERVISOR, ADMIN} then (Forbidden, st) else view r)"

text \<open>\<^verbatim>\<open>try: with transaction.atomic(): ... except Exception as e: ...\<close>\<close>

definition try_atomic :: "(db \<Rightarrow> (error + response) \<times> db) \<Rightarrow> db \<Rightarrow> response \<times> db" where
  "try_atomic block st =
     (case atomic block st of
        (Inl e, st') \<Rightarrow> (Failure (Exception e), st')
      | (Inr resp, st') \<Rightarrow> (resp, st'))"

text \<open>
  A user that may be the target of an assignment: it exists, has a profile, and its role is
  one of the three.
\<close>

definition valid_operator :: "db \<Rightarrow> nat \<Rightarrow> error + user_id option" where
  "valid_operator st uid =
     (case get_object_or_404 (users st) (\<lambda>u. fst u = uid) of
        Inl e \<Rightarrow> Inl e
      | Inr (u, profile) \<Rightarrow>
          (case profile of
             None \<Rightarrow> Inr None
           | Some r \<Rightarrow> if r \<notin> {OPERATOR, SUPERVISOR, ADMIN} then Inr None else Inr (Some u)))"

text \<open>A JSON field that holds an identifier is truthy when it is present and not zero.\<close>

definition truthy :: "nat option \<Rightarrow> bool" where
  "truthy v \<longleftrightarrow> (case v of None \<Rightarrow> False | Some n \<Rightarrow> n \<noteq> 0)"

definition assign_operation_block ::
  "env \<Rightarrow> user_id \<Rightarrow> role \<Rightarrow> nat \<Rightarrow> nat option \<Rightarrow> db \<Rightarrow> (error + response) \<times> db" where
  "assign_operation_block ev user user_role process_record_id target_user_id st =
     (case get_object_or_404 (process_records st) (\<lambda>r. pr_id r = process_record_id) of
        Inl e \<Rightarrow> (Inl e, st)
      | Inr process_record \<Rightarrow>
          if assigned_operator process_record \<noteq> None then (Inr (Failure AlreadyAssigned), st)
          else
            (case (if truthy target_user_id \<and> user_role \<in> {SUPERVISOR, ADMIN}
                   then valid_operator st (the target_user_id) else Inr (Some user)) of
               Inl e \<Rightarrow> (Inl e, st)
             | Inr None \<Rightarrow> (Inr (Failure InvalidOperator), st)
             | Inr (Some target_user) \<Rightarrow>
                 (case orm_first (process_records st)
                         (\<lambda>r. assigned_operator r = Some target_user \<and> pr_status r = IN_PROGRESS) of
                    Some existing_assignment \<Rightarrow> (Inr (Failure OperatorBusy), st)
                  | None \<Rightarrow>
                      (case orm_get (process_records st) (\<lambda>r. pr_id r = pr_id process_record) of
                         Inl e \<Rightarrow> (Inl e, st)
                       | Inr refreshed \<Rightarrow>
                           if assigned_operator refreshed \<noteq> None
                           then (Inr (Failure AssignedMeanwhile), st)
                           else
                             (case pr_save ev None
                                     (refreshed\<lparr>assigned_operator := Some target_user,
                                                pr_status := IN_PROGRESS, started_at := Some (now ev),
                                                assigned_at := Some (now ev)\<rparr>) st of
                                (Inl e, st1) \<Rightarrow> (Inl e, st1)
                              | (Inr (saved, cached), st1) \<Rightarrow>
                                  (case related_serial cached saved st1 of
                                     Inl e \<Rightarrow> (Inl e, st1)
                                   | Inr serial \<Rightarrow>
                                       if sn_status serial = CREATED
                                       then (Inr Success, sn_save (serial\<lparr>sn_status := IN_PROCESS\<rparr>) st1)
                                       else (Inr Success, st1)))))))"

definition assign_operation :: "env \<Rightarrow> user_id \<Rightarrow> nat \<Rightarrow> nat option \<Rightarrow> db \<Rightarrow> response \<times> db" where
  "assign_operation ev user process_record_id target_user_id st =
     operator_required st user
       (\<lambda>user_role. try_atomic (assign_operation_block ev user user_role process_record_id target_user_id) st)"

definition reassign_operation_block :: "env \<Rightarrow> nat \<Rightarrow> nat option \<Rightarrow> db \<Rightarrow> (error + response) \<times> db" where
  "reassign_operation_block ev process_record_id new_operator_id st =
     (case get_object_or_404 (process_records st) (\<lambda>r. pr_id r = process_record_id) of
        Inl e \<Rightarrow> (Inl e, st)
      | Inr process_record \<Rightarrow>
          (case (if truthy new_operator_id then
                   (case valid_operator st (the new_operator_id) of
                      Inl e \<Rightarrow> Inl e
                    | Inr None \<Rightarrow> Inr (Inl InvalidOperator)
                    | Inr (Some new_operator) \<Rightarrow>
                        (case orm_first (process_records st)
                                (\<lambda>r. assigned_operator r = Some new_operator \<and> pr_status r = IN_PROGRESS
                                      \<and> pr_id r \<noteq> process_record_id) of
                           Some existing_assignment \<Rightarrow> Inr (Inl OperatorBusy)
                         | None \<Rightarrow>
                             Inr (Inr (process_record\<lparr>assigned_operator := Some new_operator,
                                                      assigned_at := Some (now ev)\<rparr>))))
                 else Inr (Inr (process_record\<lparr>assigned_operator := None, pr_status := PENDING,
                                                started_at := None, assigned_at := None\<rparr>))) of
             Inl e \<Rightarrow> (Inl e, st)
           | Inr (Inl f) \<Rightarrow> (Inr (Failure f), st)
           | Inr (Inr changed) \<Rightarrow>
               (case pr_save ev None changed st of
                  (Inl e, st1) \<Rightarrow> (Inl e, st1)
                | (Inr _, st1) \<Rightarrow> (Inr Success, st1))))"

definition reassign_operation :: "env \<Rightarrow> user_id \<Rightarrow> nat \<Rightarrow> nat option \<Rightarrow> db \<Rightarrow> response \<times> db" where
  "reassign_operation ev user process_record_id new_operator_id st =
     supervisor_or_admin_required st user
       (\<lambda>user_role. try_atomic (reassign_operation_block ev process_record_id new_operator_id) st)"

text \<open>
  The record that the operator works on: \<^verbatim>\<open>get_object_or_404(ProcessRecord, id=...,
  assigned_operator=request.user, status='IN_PROGRESS')\<close>.
\<close>

definition own_assignment :: "db \<Rightarrow> user_id \<Rightarrow> nat \<Rightarrow> error + process_record" where
  "own_assignment st user process_record_id =
     get_object_or_404 (process_records st)
       (\<lambda>r. pr_id r = process_record_id \<and> assigned_operator r = Some user \<and> pr_status r = IN_PROGRESS)"

definition complete_operation_block ::
  "env \<Rightarrow> user_id \<Rightarrow> nat \<Rightarrow> nat \<Rightarrow> string \<Rightarrow> bool \<Rightarrow> db \<Rightarrow> (error + response) \<times> db" where
  "complete_operation_block ev user process_record_id serial_number_id notes_arg quality_passed st =
     (case own_assignment st user process_record_id of
        Inl e \<Rightarrow> (Inl e, st)
      | Inr process_record \<Rightarrow>
          (case get_object_or_404 (serial_numbers st) (\<lambda>s. sn_id s = serial_number_id) of
             Inl e \<Rightarrow> (Inl e, st)
           | Inr serial \<Rightarrow>
               (case pr_get_or_create ev serial (pr_operation process_record)
                       ((new_process_record (sn_id serial) (pr_operation process_record))
                          \<lparr>pr_status := APPROVED, processed_by := Some user,
                           assigned_operator := Some user, started_at := Some (now ev),
                           completed_at := Some (now ev), assigned_at := Some (now ev),
                           pr_notes := notes_arg, quality_check_passed := quality_passed\<rparr>) st of
                  (Inl e, st1) \<Rightarrow> (Inl e, st1)
                | (Inr (specific_record, created, serial1), st1) \<Rightarrow>
                    (case (if \<not> created then
                             (case pr_save ev None
                                     (specific_record\<lparr>pr_status := APPROVED, completed_at := Some (now ev),
                                                      processed_by := Some user, pr_notes := notes_arg,
                                                      quality_check_passed := quality_passed\<rparr>) st1 of
                                (Inl e, st2) \<Rightarrow> (Inl e, st2)
                              | (Inr _, st2) \<Rightarrow> (Inr (), st2))
                           else (Inr (), st1)) of
                       (Inl e, st2) \<Rightarrow> (Inl e, st2)
                     | (Inr _, st2) \<Rightarrow>
                         if approved_operations (sn_id serial1) st2 \<ge> total_operations st2
                         then (Inr Success,
                               sn_save (serial1\<lparr>sn_status := COMPLETED, sn_completed_at := Some (now ev)\<rparr>) st2)
                         else (Inr Success, sn_save (serial1\<lparr>sn_status := IN_PROCESS\<rparr>) st2)))))"

definition complete_operation ::
  "env \<Rightarrow> user_id \<Rightarrow> nat \<Rightarrow> nat \<Rightarrow> string \<Rightarrow> bool \<Rightarrow> db \<Rightarrow> response \<times> db" where
  "complete_operation ev user process_record_id serial_number_id notes_arg quality_passed st =
     operator_required st user
       (\<lambda>user_role. try_atomic
          (complete_operation_block ev user process_record_id serial_number_id notes_arg quality_passed) st)"

text \<open>\<^verbatim>\<open>Defect.objects.create(...)\<close>: open, reported by the user, nothing else set.\<close>

definition defect_create :: "nat \<Rightarrow> nat \<Rightarrow> string \<Rightarrow> string \<Rightarrow> user_id \<Rightarrow> db \<Rightarrow> defect \<times> db" where
  "defect_create serial_pk operation_pk dtype reason user st =
     (let d = \<lparr>d_id = new_id (map d_id (defects st)), d_serial_number = serial_pk,
               d_operation = operation_pk, d_defect_type = dtype, description = reason,
               d_status = OPEN, reported_by = user, assigned_repairer = None, resolved_by = None,
               repair_notes = [], return_to_operation = None, resolved_at = None\<rparr>
      in (d, st\<lparr>defects := defects st @ [d]\<rparr>))"

definition reject_serial_number_block ::
  "env \<Rightarrow> user_id \<Rightarrow> nat \<Rightarrow> nat \<Rightarrow> string \<Rightarrow> string \<Rightarrow> db \<Rightarrow> (error + response) \<times> db" where
  "reject_serial_number_block ev user process_record_id serial_number_id dtype reason st =
     (case own_assignment st user process_record_id of
        Inl e \<Rightarrow> (Inl e, st)
      | Inr process_record \<Rightarrow>
          (case get_object_or_404 (serial_numbers st) (\<lambda>s. sn_id s = serial_number_id) of
             Inl e \<Rightarrow> (Inl e, st)
           | Inr serial0 \<Rightarrow>
               (case defect_create (sn_id serial0) (pr_operation process_record) dtype reason user st of
                  (d, st1) \<Rightarrow>
                    (let serial = serial0\<lparr>sn_status := DEFECTIVE\<rparr>;
                         st2 = sn_save serial st1
                     in case pr_get_or_create ev serial (pr_operation process_record)
                               ((new_process_record (sn_id serial) (pr_operation process_record))
                                  \<lparr>pr_status := REJECTED, processed_by := Some user,
                                   assigned_operator := Some user, started_at := Some (now ev),
                                   completed_at := Some (now ev), assigned_at := Some (now ev),
                                   rejection_reason := reason, pr_defect_type := dtype\<rparr>) st2 of
                          (Inl e, st3) \<Rightarrow> (Inl e, st3)
                        | (Inr (specific_record, created, serial1), st3) \<Rightarrow>
                            if \<not> created then
                              (case pr_save ev None
                                      (specific_record\<lparr>pr_status := REJECTED, completed_at := Some (now ev),
                                                       processed_by := Some user, rejection_reason := reason,
                                                       pr_defect_type := dtype\<rparr>) st3 of
                                 (Inl e, st4) \<Rightarrow> (Inl e, st4)
                               | (Inr _, st4) \<Rightarrow> (Inr Success, st4))
                            else (Inr Success, st3)))))"

definition reject_serial_number ::
  "env \<Rightarrow> user_id \<Rightarrow> nat \<Rightarrow> nat \<Rightarrow> string \<Rightarrow> string \<Rightarrow> db \<Rightarrow> response \<times> db" where
  "reject_serial_number ev user process_record_id serial_number_id dtype reason st =
     operator_required st user
       (\<lambda>user_role. try_atomic
          (reject_serial_number_block ev user process_record_id serial_number_id dtype reason) st)"

definition release_operation_block :: "env \<Rightarrow> user_id \<Rightarrow> nat \<Rightarrow> db \<Rightarrow> (error + response) \<times> db" where
  "release_operation_block ev user process_record_id st =
     (case own_assignment st user process_record_id of
        Inl e \<Rightarrow> (Inl e, st)
      | Inr process_record \<Rightarrow>
          (case pr_save ev None
                  (process_record\<lparr>assigned_operator := None, pr_status := PENDING,
                                  started_at := None, assigned_at := None\<rparr>) st of
             (Inl e, st1) \<Rightarrow> (Inl e, st1)
           | (Inr _, st1) \<Rightarrow> (Inr Success, st1)))"

definition release_operation :: "env \<Rightarrow> user_id \<Rightarrow> nat \<Rightarrow> db \<Rightarrow> response \<times> db" where
  "release_operation ev user process_record_id st =
     operator_required st user
       (\<lambda>user_role. try_atomic (release_operation_block ev user process_record_id) st)"

text \<open>\<^verbatim>\<open>ProcessRecord.can_be_assigned_to\<close> of \<^verbatim>\<open>operations/models.py\<close>.\<close>

definition can_be_assigned_to :: "db \<Rightarrow> process_record \<Rightarrow> user_id \<Rightarrow> bool" where
  "can_be_assigned_to st self user =
     (if role_of st user \<noteq> Some OPERATOR then False
      else if pr_status self \<noteq> PENDING then False
      else \<not> (\<exists>r \<in> set (process_records st). assigned_operator r = Some user \<and> pr_status r = IN_PROGRESS))"

section \<open>Resolving a defect: \<^verbatim>\<open>defects/views.py\<close>\<close>

definition defect_save :: "defect \<Rightarrow> db \<Rightarrow> db" where
  "defect_save d st = st\<lparr>defects := map (\<lambda>x. if d_id x = d_id d then d else x) (defects st)\<rparr>"

text \<open>
  \<^verbatim>\<open>resolve_defect\<close> runs outside a transaction: what is written before an exception stays
  written.
\<close>

definition resolve_defect_body ::
  "env \<Rightarrow> user_id \<Rightarrow> nat \<Rightarrow> string \<Rightarrow> nat option \<Rightarrow> db \<Rightarrow> (error + response) \<times> db" where
  "resolve_defect_body ev user defect_id notes_arg return_to st =
     (case get_object_or_404 (defects st) (\<lambda>d. d_id d = defect_id) of
        Inl e \<Rightarrow> (Inl e, st)
      | Inr defect0 \<Rightarrow>
          (case role_of st user of
             None \<Rightarrow> (Inl Http404, st)
           | Some user_role \<Rightarrow>
               if user_role \<notin> {REPAIRER, ADMIN} \<and> assigned_repairer defect0 \<noteq> Some user
               then (Inr (Failure NoPermission), st)
               else
                 (let defect1 = defect0\<lparr>repair_notes := notes_arg, resolved_at := Some (now ev),
                                        resolved_by := Some user\<rparr>
                  in if truthy return_to then
                       (case get_object_or_404 (operations st) (\<lambda>p. op_id p = the return_to) of
                          Inl e \<Rightarrow> (Inl e, st)
                        | Inr operation \<Rightarrow>
                            (let defect2 = defect1\<lparr>d_status := REPAIRED,
                                                   return_to_operation := Some (op_id operation)\<rparr>
                             in case orm_get (serial_numbers st) (\<lambda>s. sn_id s = d_serial_number defect2) of
                                  Inl e \<Rightarrow> (Inl e, st)
                                | Inr serial \<Rightarrow>
                                    (case pr_get_or_create ev serial (op_id operation)
                                            (new_process_record (sn_id serial) (op_id operation)) st of
                                       (Inl e, st1) \<Rightarrow> (Inl e, st1)
                                     | (Inr (process_record, created, serial1), st1) \<Rightarrow>
                                         (case (if \<not> created then
                                                  (case pr_save ev None
                                                          (process_record\<lparr>pr_status := PENDING,
                                                                          assigned_operator := None\<rparr>) st1 of
                                                     (Inl e, st2) \<Rightarrow> (Inl e, st2)
                                                   | (Inr _, st2) \<Rightarrow> (Inr (), st2))
                                                else (Inr (), st1)) of
                                            (Inl e, st2) \<Rightarrow> (Inl e, st2)
                                          | (Inr _, st2) \<Rightarrow> (Inr Success, defect_save defect2 st2)))))
                     else
                       (let defect2 = defect1\<lparr>d_status := D_SCRAPPED\<rparr> in
                        case orm_get (serial_numbers st) (\<lambda>s. sn_id s = d_serial_number defect2) of
                          Inl e \<Rightarrow> (Inl e, st)
                        | Inr serial \<Rightarrow>
                            (Inr Success,
                             defect_save defect2 (sn_save (serial\<lparr>sn_status := SCRAPPED\<rparr>) st))))))"

definition resolve_defect :: "env \<Rightarrow> user_id \<Rightarrow> nat \<Rightarrow> string \<Rightarrow> nat option \<Rightarrow> db \<Rightarrow> response \<times> db" where
  "resolve_defect ev user defect_id notes_arg return_to st =
     (case resolve_defect_body ev user defect_id notes_arg return_to st of
        (Inl e, st') \<Rightarrow> (Failure (Exception e), st')
      | (Inr resp, st') \<Rightarrow> (resp, st'))"

section \<open>Sample data\<close>

text \<open>
  A small database on which the theorems below are tried: two active operations, one
  authorized part, an operator, a supervisor and a repairer, and no serial numbers yet.
\<close>

definition example_env :: env where
  "example_env =
     \<lparr>signals_connected = True, now = 100, today_year = 2025, today_month = 1,
      notification_error = None\<rparr>"

definition example_db :: db where
  "example_db =
     \<lparr>operations = [\<lparr>op_id = 1, sequence_number = 1, is_active = True\<rparr>,
                    \<lparr>op_id = 2, sequence_number = 2, is_active = True\<rparr>],
      process_records = [], serial_numbers = [], defects = [],
      authorized_parts = [\<lparr>ap_id = 1, part_number = ''P1'', ap_is_active = True\<rparr>],
      users = [(1, Some OPERATOR), (2, Some SUPERVISOR), (3, Some REPAIRER)]\<rparr>"



section \<open>Characters and decimal fields\<close>

lemma of_char_char_of_int: "0 \<le> n \<Longrightarrow> n < 256 \<Longrightarrow> (of_char (char_of (n::int)) :: nat) = nat n"
proof -
  assume a: "0 \<le> n" "n < 256"
  have "(of_char (char_of n) :: int) = n mod 256" by (rule of_char_of)
  then have "(of_char (char_of n) :: int) = n" using a by simp
  then have "int (of_char (char_of n) :: nat) = n" by (simp add: of_nat_of_char)
  then show ?thesis by linarith
qed

lemma year_letter_code:
  "get_year_letter y = Inr c \<Longrightarrow> (of_char c :: nat) = nat (y - 1950) \<and> 2025 \<le> y \<and> y \<le> 2050"
  by (auto simp: get_year_letter_def Let_def of_char_char_of_int split: if_splits)

lemma month_letter_code:
  "get_month_letter m = Inr c \<Longrightarrow> (of_char c :: nat) = nat (m + 64) \<and> 1 \<le> m \<and> m \<le> 12"
  by (auto simp: get_month_letter_def Let_def of_char_char_of_int split: if_splits)

lemma char_le_iff: "(c::char) \<le> d \<longleftrightarrow> (of_char c :: nat) \<le> of_char d"
  by (simp add: less_eq_char_def)

lemma fullmatch_first: "fullmatch_serial s \<Longrightarrow> (of_char (s ! 0) :: nat) \<le> 90 \<and> 75 \<le> (of_char (s ! 0) :: nat)"
  by (simp add: fullmatch_serial_def char_le_iff)

lemma validate_first: "validate_serial_format s \<Longrightarrow> (of_char (s ! 0) :: nat) \<le> 90 \<and> 75 \<le> (of_char (s ! 0) :: nat)"
  unfolding validate_serial_format_def
  apply (erule disjE)
   apply (erule fullmatch_first)
  apply (elim conjE)
  apply (frule fullmatch_first)
  apply (simp add: fullmatch_serial_def nth_butlast)
  done

lemma digits3_div100: "a<10 \<Longrightarrow> b<10 \<Longrightarrow> c<10 \<Longrightarrow> (100*a+10*b+c) div 100 = (a::nat)"
proof -
  assume a: "a<10" "b<10" "c<10"
  have e: "100*a+10*b+c = (10*b+c) + a*100" by simp
  have "10*b+c < 100" using a by linarith
  then show ?thesis unfolding e by simp
qed

lemma digits3_mod10: "a<10 \<Longrightarrow> b<10 \<Longrightarrow> c<10 \<Longrightarrow> (100*a+10*b+c) mod 10 = (c::nat)"
proof -
  assume a: "a<10" "b<10" "c<10"
  have e: "100*a+10*b+c = c + (10*a+b)*10" by simp
  show ?thesis unfolding e using a by (simp only: mod_mult_self1 mod_less)
qed

lemma digits3_div10: "a<10 \<Longrightarrow> b<10 \<Longrightarrow> c<10 \<Longrightarrow> (100*a+10*b+c) div 10 mod 10 = (b::nat)"
proof -
  assume a: "a<10" "b<10" "c<10"
  have "100*a+10*b+c = (10*a+b)*10 + c" by simp
  then have "(100*a+10*b+c) div 10 = 10*a+b" using a by simp
  then show ?thesis using a by simp
qed

lemma digits3_sum: "100 * (n div 100) + 10 * (n div 10 mod 10) + n mod 10 = (n::nat)"
proof -
  have a: "n = 10 * (n div 10) + n mod 10" by simp
  have b: "n div 10 = 10 * (n div 10 div 10) + n div 10 mod 10" by simp
  have c: "n div 10 div 10 = n div 100" by (simp add: div_mult2_eq)
  show ?thesis using a b c by linarith
qed

lemma digit_char_0: "digit_char 0 = CHR ''0''"
  unfolding digit_char_def by code_simp

lemma dec_small: "n < 10 \<Longrightarrow> dec n = [digit_char n]"
  by (subst dec.simps) simp

lemma fmt03_digits:
  assumes "n < 1000"
  shows "fmt03 n = [digit_char (n div 100), digit_char (n div 10 mod 10), digit_char (n mod 10)]"
proof -
  consider "n < 10" | "10 \<le> n" "n < 100" | "100 \<le> n"
    by linarith
  then show ?thesis
  proof cases
    case 1
    then show ?thesis
      by (simp add: fmt03_def dec_small numeral_2_eq_2 digit_char_0)
  next
    case 2
    then have "n div 10 < 10" by simp
    with 2 show ?thesis
      by (simp add: fmt03_def dec.simps [of n] dec_small digit_char_0)
  next
    case 3
    then have a: "\<not> n div 10 < 10" by simp
    have b: "n div 10 div 10 < 10" using assms by simp
    have c: "n div 10 div 10 = n div 100" by (simp add: div_mult2_eq)
    from 3 a b c show ?thesis
      by (simp add: fmt03_def dec.simps [of n] dec.simps [of "n div 10"] dec_small)
  qed
qed

lemma of_char_digit_char: "d < 10 \<Longrightarrow> (of_char (digit_char d) :: nat) = 48 + d"
  by (simp add: digit_char_def)

lemma isdigit_digit_char: "d < 10 \<Longrightarrow> isdigit (digit_char d)"
  by (simp add: isdigit_def of_char_digit_char)

lemma digit_val_digit_char: "d < 10 \<Longrightarrow> digit_val (digit_char d) = d"
  by (simp add: digit_val_def of_char_digit_char)

lemma digit_char_digit_val: "isdigit c \<Longrightarrow> digit_char (digit_val c) = c"
  by (simp add: isdigit_def digit_val_def digit_char_def)

lemma digit_val_less: "isdigit c \<Longrightarrow> digit_val c < 10"
  by (auto simp add: isdigit_def digit_val_def)

lemma int_of_digits_3:
  "a < 10 \<Longrightarrow> b < 10 \<Longrightarrow> c < 10 \<Longrightarrow>
   int_of_digits [digit_char a, digit_char b, digit_char c] = 100 * a + 10 * b + c"
  by (simp add: int_of_digits_def digit_val_digit_char)

lemma int_of_digits_fmt03: "n < 1000 \<Longrightarrow> int_of_digits (fmt03 n) = n"
proof -
  assume n: "n < 1000"
  have "n div 100 < 10" "n div 10 mod 10 < 10" "n mod 10 < 10" using n by simp_all
  then show ?thesis
    by (simp only: fmt03_digits [OF n] int_of_digits_3 digits3_sum)
qed

lemma length_fmt03: "n < 1000 \<Longrightarrow> length (fmt03 n) = 3"
  by (simp add: fmt03_digits)

lemma digits_fmt03: "n < 1000 \<Longrightarrow> list_all isdigit (fmt03 n)"
  by (simp add: fmt03_digits isdigit_digit_char)


lemma three_digits:
  assumes "length g = 3" "list_all isdigit g"
  shows "int_of_digits g < 1000 \<and> fmt03 (int_of_digits g) = g"
proof -
  from assms obtain a b c where g: "g = [a, b, c]"
    by (auto simp: numeral_3_eq_3 length_Suc_conv)
  with assms have d: "isdigit a" "isdigit b" "isdigit c" by simp_all
  let ?n = "100 * digit_val a + 10 * digit_val b + digit_val c"
  have n: "int_of_digits g = ?n" by (simp add: g int_of_digits_def)
  note b = d [THEN digit_val_less]
  have lt: "?n < 1000" using b by linarith
  have "fmt03 ?n = [digit_char (digit_val a), digit_char (digit_val b), digit_char (digit_val c)]"
    by (simp only: fmt03_digits [OF lt] digits3_div100 [OF b] digits3_div10 [OF b] digits3_mod10 [OF b])
  then have f: "fmt03 ?n = g"
    by (simp only: g digit_char_digit_val [OF d(1)] digit_char_digit_val [OF d(2)]
          digit_char_digit_val [OF d(3)])
  show ?thesis unfolding n using lt f by blast
qed

section \<open>What the allocator returns\<close>

lemma signals_update_serial_status_key:
  "signals_update_serial_status ev s st = (s', st')
   \<Longrightarrow> sn_serial_number s' = sn_serial_number s \<and> sn_id s' = sn_id s"
  by (auto simp: signals_update_serial_status_def Let_def)

lemma pr_create_key:
  assumes "pr_create ev s row st = (Inr (r, s'), st')"
  shows "sn_serial_number s' = sn_serial_number s \<and> sn_id s' = sn_id s"
proof (cases "signals_connected ev")
  case True
  with assms show ?thesis
    by (auto simp: pr_create_def post_save_process_record_def related_serial_def Let_def
             split: if_splits prod.splits dest: signals_update_serial_status_key)
next
  case False
  with assms show ?thesis
    by (auto simp: pr_create_def post_save_process_record_def Let_def split: if_splits)
qed

lemma create_process_records_loop_key:
  "create_process_records_loop ev ops s st = (Inr s', st')
   \<Longrightarrow> sn_serial_number s' = sn_serial_number s \<and> sn_id s' = sn_id s"
proof (induction ops arbitrary: s st)
  case Nil
  then show ?case by simp
next
  case (Cons p ops)
  from Cons.prems obtain r s1 st1 where
    c: "pr_create ev s (new_process_record (sn_id s) (op_id p)) st = (Inr (r, s1), st1)"
    and l: "create_process_records_loop ev ops s1 st1 = (Inr s', st')"
    by (auto split: prod.splits sum.splits)
  from pr_create_key [OF c] Cons.IH [OF l] show ?case by simp
qed

lemma sn_create_key:
  "sn_create ev row st = (Inr s, st') \<Longrightarrow> sn_serial_number s = sn_serial_number row"
  by (auto simp: sn_create_def create_process_records_def Let_def
           dest!: create_process_records_loop_key split: if_splits)

lemma generate_serial_number_result:
  assumes "generate_serial_number ev ord part u st = (Inr s, st')"
  shows "\<exists>yl ml a b. get_year_letter (today_year ev) = Inr yl
           \<and> get_month_letter (today_month ev) = Inr ml
           \<and> sn_serial_number s = [yl, ml] @ fmt03 a @ ''-'' @ fmt03 b @ ''M''"
proof -
  from assms have b: "generate_serial_number_block ev ord part u st = (Inr s, st')"
    by (auto simp: generate_serial_number_def atomic_def split: prod.splits sum.splits)
  then show ?thesis
    unfolding generate_serial_number_block_def Let_def
    by (auto split: sum.splits error.splits prod.splits dest!: sn_create_key) blast
qed

lemma generate_serial_number_year_error:
  assumes "get_year_letter (today_year ev) = Inl e"
  shows "\<exists>e'. generate_serial_number ev ord part u st = (Inl e', st)"
  using assms
  by (auto simp: generate_serial_number_def atomic_def generate_serial_number_block_def
           split: sum.splits error.splits prod.splits)

text \<open>
  Claim C10. The year letter is defined exactly for the years 2025 to 2050, where it is the
  character with code \<open>ord('K') + (y - 2025)\<close>; for any other year the computation raises
  \<^verbatim>\<open>ValueError\<close> and \<^verbatim>\<open>generate_serial_number\<close> ends with an exception and an unchanged
  database. For the years 2041 to 2050 the letter lies after \<open>Z\<close>, and every serial number
  that \<^verbatim>\<open>generate_serial_number\<close> returns in such a year is rejected by
  \<^verbatim>\<open>validate_serial_format\<close>.
\<close>

theorem year_letter_range:
  "(2025 \<le> y \<and> y \<le> 2050 \<longrightarrow>
      get_year_letter y = Inr (char_of (of_char (CHR ''K'') + (y - 2025))))
   \<and> (y < 2025 \<or> 2050 < y \<longrightarrow>
        (\<exists>e. get_year_letter y = Inl (ValueError e))
        \<and> (today_year ev = y \<longrightarrow> (\<exists>e. generate_serial_number ev ord part u st = (Inl e, st))))
   \<and> (2041 \<le> y \<and> y \<le> 2050 \<longrightarrow>
        (\<exists>c. get_year_letter y = Inr c \<and> CHR ''Z'' < c)
        \<and> (today_year ev = y \<longrightarrow>
             (\<forall>s st'. generate_serial_number ev ord part u st = (Inr s, st')
                 \<longrightarrow> \<not> validate_serial_format (sn_serial_number s))))"
proof (intro conjI impI)
  assume "2025 \<le> y \<and> y \<le> 2050"
  then show "get_year_letter y = Inr (char_of (of_char (CHR ''K'') + (y - 2025)))"
    by (simp add: get_year_letter_def)
next
  assume a: "y < 2025 \<or> 2050 < y"
  then show "\<exists>e. get_year_letter y = Inl (ValueError e)"
    by (auto simp: get_year_letter_def)
  then obtain e where e: "get_year_letter y = Inl e" by blast
  assume "today_year ev = y"
  with e show "\<exists>e. generate_serial_number ev ord part u st = (Inl e, st)"
    using generate_serial_number_year_error [of ev] by simp
next
  assume a: "2041 \<le> y \<and> y \<le> 2050"
  then obtain c where c: "get_year_letter y = Inr c"
    by (simp add: get_year_letter_def)
  from year_letter_code [OF c] a have code: "(of_char c :: nat) > 90" by linarith
  then show "\<exists>c. get_year_letter y = Inr c \<and> CHR ''Z'' < c"
    using c by (auto simp: less_char_def)
  assume t: "today_year ev = y"
  show "\<forall>s st'. generate_serial_number ev ord part u st = (Inr s, st')
                 \<longrightarrow> \<not> validate_serial_format (sn_serial_number s)"
  proof (intro allI impI notI)
    fix s st'
    assume g: "generate_serial_number ev ord part u st = (Inr s, st')"
      and v: "validate_serial_format (sn_serial_number s)"
    from generate_serial_number_result [OF g] t c obtain rest where
      "sn_serial_number s = c # rest" by auto
    with validate_first [OF v] code show False by simp
  qed
qed

theorem year_letter_range_witness:
  "get_year_letter 2030 = Inr (CHR ''P'')
   \<and> (\<exists>e. get_year_letter 2051 = Inl (ValueError e))
   \<and> (\<exists>e. generate_serial_number (example_env\<lparr>today_year := 2051\<rparr>) ''ORD-1'' ''P1'' 1 example_db
            = (Inl e, example_db))
   \<and> fst (generate_serial_number (example_env\<lparr>today_year := 2041\<rparr>) ''ORD-1'' ''P1'' 1 example_db)
       = Inr \<lparr>sn_id = 1, sn_serial_number = ''[A001-001M'', order_number = ''ORD-1'',
               authorized_part = 1, sn_status = CREATED, sn_completed_at = None, created_by = 1\<rparr>
   \<and> \<not> validate_serial_format ''[A001-001M''"
proof -
  let ?ev = "example_env\<lparr>today_year := 2041\<rparr>"
  let ?s = "\<lparr>sn_id = 1, sn_serial_number = ''[A001-001M'', order_number = ''ORD-1'',
             authorized_part = 1, sn_status = CREATED, sn_completed_at = None, created_by = 1\<rparr>"
  have f: "fst (generate_serial_number ?ev ''ORD-1'' ''P1'' 1 example_db) = Inr ?s"
    by code_simp
  then have g: "generate_serial_number ?ev ''ORD-1'' ''P1'' 1 example_db
                  = (Inr ?s, snd (generate_serial_number ?ev ''ORD-1'' ''P1'' 1 example_db))"
    by (metis prod.collapse)
  have y: "today_year ?ev = 2041" "today_year (example_env\<lparr>today_year := 2051\<rparr>) = 2051"
    by simp_all
  have a: "get_year_letter 2030 = Inr (char_of (80 :: int))"
    using year_letter_range [of 2030] by simp
  have b: "char_of (80 :: int) = CHR ''P''"
    by code_simp
  have c: "\<not> validate_serial_format (sn_serial_number ?s)"
  proof -
    have r: "(2041 :: int) \<le> 2041 \<and> (2041 :: int) \<le> 2050" by simp
    show ?thesis
      using year_letter_range [of 2041 ?ev "''ORD-1''" "''P1''" 1 example_db] g y(1) r by blast
  qed
  show ?thesis
    using a b c f year_letter_range [of 2051 "example_env\<lparr>today_year := 2051\<rparr>" "''ORD-1''" "''P1''" 1 example_db] y(2)
    by simp
qed

end
